theory Spec2Isabelle
  imports Complex_Main "HOL-Library.Log_Nat"
begin

section \<open>Python string operations used by the analyzers\<close>

text \<open>
  A Python \<open>str\<close> is modelled as a \<open>string\<close> (a list of \<open>char\<close>), one \<open>char\<close> per
  code point; the model therefore covers documents whose code points are below 256.
  \<open>len\<close> is \<open>length\<close>.
\<close>

text \<open>\<open>s.startswith(p)\<close>\<close>

fun startswith :: "string \<Rightarrow> string \<Rightarrow> bool" where
  "startswith s [] = True"
| "startswith [] (p # ps) = False"
| "startswith (c # s) (p # ps) = (c = p \<and> startswith s ps)"

text \<open>\<open>s.endswith(p)\<close>\<close>

definition endswith :: "string \<Rightarrow> string \<Rightarrow> bool" where
  "endswith s p = startswith (rev s) (rev p)"

text \<open>\<open>sub in s\<close>\<close>

fun contains :: "string \<Rightarrow> string \<Rightarrow> bool" where
  "contains [] sub = (sub = [])"
| "contains (c # s) sub = (startswith (c # s) sub \<or> contains s sub)"

text \<open>
  \<open>s.count(sub)\<close>: the number of non-overlapping occurrences, scanning from the left.
  For the empty \<open>sub\<close> Python returns \<open>len(s) + 1\<close>.
\<close>

function count_sub :: "string \<Rightarrow> string \<Rightarrow> nat" where
  "count_sub s sub =
     (if sub = [] then length s + 1
      else if s = [] then 0
      else if startswith s sub then 1 + count_sub (drop (length sub) s) sub
      else count_sub (tl s) sub)"
  by pat_completeness auto
termination
  by (relation "measure (\<lambda>(s, sub). length s)") auto

declare count_sub.simps [simp del]

text \<open>\<open>s.find(sub)\<close> as an option: the index of the first occurrence.\<close>

fun find_sub :: "string \<Rightarrow> string \<Rightarrow> nat option" where
  "find_sub [] sub = (if sub = [] then Some 0 else None)"
| "find_sub (c # s) sub =
     (if startswith (c # s) sub then Some 0
      else (case find_sub s sub of None \<Rightarrow> None | Some i \<Rightarrow> Some (Suc i)))"

text \<open>
  \<open>s.split(d)\<close> for a one-character separator \<open>d\<close>. The result is never the empty
  list, so the first branch of the \<open>case\<close> is not reached.
\<close>

fun split_chr :: "char \<Rightarrow> string \<Rightarrow> string list" where
  "split_chr d [] = [[]]"
| "split_chr d (c # s) =
     (if c = d then [] # split_chr d s
      else (case split_chr d s of
              [] \<Rightarrow> [[c]]
            | l # ls \<Rightarrow> (c # l) # ls))"

text \<open>\<open>sep.join(xs)\<close>\<close>

fun join :: "string \<Rightarrow> string list \<Rightarrow> string" where
  "join sep [] = []"
| "join sep [x] = x"
| "join sep (x # y # ys) = x @ sep @ join sep (y # ys)"

text \<open>
  \<open>str.isspace\<close> on one code point below 256: the characters that \<open>str.strip()\<close>
  removes (U+0009 to U+000D, U+001C to U+0020, U+0085, U+00A0).
\<close>

definition isspace :: "char \<Rightarrow> bool" where
  "isspace c =
     (let n = (of_char c :: nat)
      in (9 \<le> n \<and> n \<le> 13) \<or> (28 \<le> n \<and> n \<le> 32) \<or> n = 133 \<or> n = 160)"

text \<open>\<open>s.strip()\<close>\<close>

definition strip :: "string \<Rightarrow> string" where
  "strip s = rev (dropWhile isspace (rev (dropWhile isspace s)))"

text \<open>
  \<open>s.lower()\<close> on code points below 256: the ASCII capitals and the Latin-1 capitals
  U+00C0 to U+00DE (the multiplication sign U+00D7 apart) move up by 32.
\<close>

definition lower_chr :: "char \<Rightarrow> char" where
  "lower_chr c =
     (let n = (of_char c :: nat)
      in if (65 \<le> n \<and> n \<le> 90) \<or> (192 \<le> n \<and> n \<le> 222 \<and> n \<noteq> 215)
         then char_of (n + 32) else c)"

definition lower :: "string \<Rightarrow> string" where
  "lower s = map lower_chr s"

text \<open>\<open>str(n)\<close> for a natural number, as the f-strings of the messages print it.\<close>

definition digit_chr :: "nat \<Rightarrow> char" where
  "digit_chr d = char_of (48 + d)"

function str_of_nat :: "nat \<Rightarrow> string" where
  "str_of_nat n = (if n < 10 then [digit_chr n] else str_of_nat (n div 10) @ [digit_chr (n mod 10)])"
  by pat_completeness auto
termination
  by (relation "measure id") auto

declare str_of_nat.simps [simp del]

text \<open>
  \<open>len(re.findall(r'```.*?```', s, re.DOTALL))\<close>: at a position that starts with three
  backticks the lazy \<open>.*?\<close> (which matches newlines too) runs to the first later three
  backticks; the scan resumes after the match. Where no closing fence follows, the scan
  moves one character on.
\<close>

definition fence :: string where
  "fence = [CHR 0x60, CHR 0x60, CHR 0x60]"

function count_code_blocks :: "string \<Rightarrow> nat" where
  "count_code_blocks s =
     (if s = [] then 0
      else if startswith s fence then
        (case find_sub (drop 3 s) fence of
           Some i \<Rightarrow> 1 + count_code_blocks (drop (3 + i + 3) s)
         | None \<Rightarrow> count_code_blocks (tl s))
      else count_code_blocks (tl s))"
  by pat_completeness auto
termination
  by (relation "measure length") auto

declare count_code_blocks.simps [simp del]

section \<open>The documentation analyzer (doc\_analyzer.py)\<close>

text \<open>
  The fields that \<open>SkillDocAnalyzer.__init__\<close> sets: the text of SKILL.md, the parsed
  frontmatter and sections (Python dicts, here maps), and the names of the Python
  scripts found beside the document.
\<close>

record analyzer =
  content :: string
  frontmatter :: "string \<rightharpoonup> string"
  sections :: "string \<rightharpoonup> string"
  scripts :: "string list"

text \<open>\<open>_score_frontmatter\<close>: the triple (score, max\_score, issues).\<close>

definition trigger_keywords :: "string list" where
  "trigger_keywords = [''when'', ''activated by'', ''use for'', ''trigger'']"

definition score_frontmatter :: "analyzer \<Rightarrow> int \<times> int \<times> string list" where
  "score_frontmatter a =
     (let score = 0; max_score = 20; issues = [];
          (score, issues) =
            (if ''name'' \<in> dom (frontmatter a) then (score + 5, issues)
             else (score, issues @ [''Missing 'name' field in frontmatter'']));
          (score, issues) =
            (case frontmatter a ''description'' of
               Some desc \<Rightarrow>
                 (let score = score + 5;
                      (score, issues) =
                        (if length desc > 50 then (score + 5, issues)
                         else (score, issues @ [''Description too short (< 50 chars)'']));
                      (score, issues) =
                        (if contains desc ''TODO''
                         then (score - 5, issues @ [''Description contains TODO placeholder''])
                         else (score, issues));
                      (score, issues) =
                        (if list_ex (\<lambda>kw. contains (lower desc) kw) trigger_keywords
                         then (score + 5, issues)
                         else (score, issues @ [''Description lacks clear trigger terms'']))
                  in (score, issues))
             | None \<Rightarrow> (score, issues @ [''Missing 'description' field in frontmatter'']))
      in (score, max_score, issues))"

text \<open>
  \<open>_score_structure\<close>. Python's \<open>x or y\<close> on strings is \<open>x\<close> when \<open>x\<close> is not empty,
  else \<open>y\<close>; the checklist's first entry is written \<open>('Purpose' or 'Overview', 5)\<close>.
\<close>

definition py_or :: "string \<Rightarrow> string \<Rightarrow> string" where
  "py_or x y = (if x \<noteq> [] then x else y)"

definition recommended_sections :: "(string \<times> int) list" where
  "recommended_sections =
     [(py_or ''Purpose'' ''Overview'', 5),
      (''Usage'', 5),
      (''Bundled Resources'', 5),
      (''Best Practices'', 5),
      (''Troubleshooting'', 5)]"

text \<open>One turn of the loop over the checklist.\<close>

fun structure_step ::
  "(string \<rightharpoonup> string) \<Rightarrow> int \<times> string list \<Rightarrow> string \<times> int \<Rightarrow> int \<times> string list" where
  "structure_step secs (score, issues) (section_name, points) =
     (if section_name \<in> dom secs then (score + points, issues)
      else (score, issues @ [''Missing recommended section: '' @ section_name]))"

definition score_structure :: "analyzer \<Rightarrow> int \<times> int \<times> string list" where
  "score_structure a =
     (let max_score = 25;
          (score, issues) = foldl (structure_step (sections a)) (0, []) recommended_sections
      in (score, max_score, issues))"

text \<open>\<open>_score_examples\<close>\<close>

definition score_examples :: "analyzer \<Rightarrow> int \<times> int \<times> string list" where
  "score_examples a =
     (let score = 0; max_score = 30; issues = [];
          num_code_blocks = count_code_blocks (content a);
          (score, issues) =
            (if num_code_blocks = 0 then (score, issues @ [''No code examples found''])
             else if num_code_blocks = 1
               then (score + 10,
                     issues @ [''Only one code example (consider adding more use cases)''])
             else if num_code_blocks = 2 then (score + 20, issues)
             else (score + 30, issues));
          issues =
            (if scripts a \<noteq> [] then
               (let scripts_documented = length (filter (\<lambda>name. contains (content a) name) (scripts a))
                in if scripts_documented = 0 then issues @ [''No examples for bundled scripts'']
                   else if scripts_documented < length (scripts a)
                     then issues @ [''Only '' @ str_of_nat scripts_documented @ ''/''
                                      @ str_of_nat (length (scripts a)) @ '' scripts have examples'']
                   else issues)
             else issues)
      in (score, max_score, issues))"

text \<open>\<open>_score_clarity\<close>\<close>

definition vague_terms :: "string list" where
  "vague_terms = [''something'', ''things'', ''stuff'', ''etc.'']"

definition score_clarity :: "analyzer \<Rightarrow> int \<times> int \<times> string list" where
  "score_clarity a =
     (let score = 20; max_score = 25; issues = [];
          todo_count = count_sub (lower (content a)) ''todo'';
          (score, issues) =
            (if todo_count > 0
             then (score - int (min 10 (todo_count * 2)),
                   issues @ [''Found '' @ str_of_nat todo_count
                               @ '' TODO markers (incomplete documentation)''])
             else (score, issues));
          vague_count = sum_list (map (\<lambda>term. count_sub (lower (content a)) term) vague_terms);
          (score, issues) =
            (if vague_count > 3
             then (score - 5,
                   issues @ [''Contains vague language ('' @ str_of_nat vague_count @ '' instances)''])
             else (score, issues));
          (score, issues) =
            (if ''When to Use'' \<in> dom (sections a) \<or> contains (content a) ''When to use''
             then (score + 5, issues)
             else (score, issues @ [''No 'When to Use' guidance'']))
      in (score, max_score, issues))"

text \<open>
  \<open>_parse_frontmatter\<close>. \<open>re.search(r'^---\n(.*?)\n---', content, re.DOTALL)\<close> matches
  only at the start of the text: three dashes and a newline, then lazily up to the first
  later newline followed by three dashes. \<open>frontmatter_block\<close> is \<open>match.group(1)\<close>,
  \<open>None\<close> when there is no match.
\<close>

definition nl :: char where
  "nl = CHR 0x0A"

definition frontmatter_block :: "string \<Rightarrow> string option" where
  "frontmatter_block c =
     (if startswith c (''---'' @ [nl]) then
        (case find_sub (drop 4 c) (nl # ''---'') of
           Some i \<Rightarrow> Some (take i (drop 4 c))
         | None \<Rightarrow> None)
      else None)"

text \<open>One line of the block: \<open>key, value = line.split(':', 1)\<close>, both stripped.\<close>

definition frontmatter_step :: "(string \<rightharpoonup> string) \<Rightarrow> string \<Rightarrow> (string \<rightharpoonup> string)" where
  "frontmatter_step fm line =
     (if CHR '':'' \<in> set line
      then fm(strip (takeWhile (\<lambda>c. c \<noteq> CHR '':'') line)
                \<mapsto> strip (tl (dropWhile (\<lambda>c. c \<noteq> CHR '':'') line)))
      else fm)"

definition parse_frontmatter :: "string \<Rightarrow> (string \<rightharpoonup> string)" where
  "parse_frontmatter c =
     (case frontmatter_block c of
        None \<Rightarrow> Map.empty
      | Some block \<Rightarrow> foldl frontmatter_step Map.empty (split_chr nl block))"

text \<open>
  \<open>_parse_sections\<close>. The loop state is (sections, current\_section, current\_content);
  \<open>if current_section:\<close> is Python truthiness, false for \<open>None\<close> and for the empty
  title.
\<close>

fun truthy :: "string option \<Rightarrow> bool" where
  "truthy None = False"
| "truthy (Some s) = (s \<noteq> [])"

fun store_section ::
  "(string \<rightharpoonup> string) \<Rightarrow> string option \<Rightarrow> string list \<Rightarrow> (string \<rightharpoonup> string)" where
  "store_section secs None current_content = secs"
| "store_section secs (Some t) current_content =
     (if t \<noteq> [] then secs(t \<mapsto> join [nl] current_content) else secs)"

fun sections_step ::
  "(string \<rightharpoonup> string) \<times> string option \<times> string list \<Rightarrow> string
     \<Rightarrow> (string \<rightharpoonup> string) \<times> string option \<times> string list" where
  "sections_step (secs, current_section, current_content) line =
     (if startswith line ''## ''
      then (store_section secs current_section current_content, Some (strip (drop 3 line)), [])
      else if truthy current_section then (secs, current_section, current_content @ [line])
      else (secs, current_section, current_content))"

text \<open>After the loop the section that is still open is stored.\<close>

fun finish_sections ::
  "(string \<rightharpoonup> string) \<times> string option \<times> string list \<Rightarrow> (string \<rightharpoonup> string)" where
  "finish_sections (secs, current_section, current_content) =
     store_section secs current_section current_content"

definition parse_sections :: "string \<Rightarrow> (string \<rightharpoonup> string)" where
  "parse_sections c =
     finish_sections (foldl sections_step (Map.empty, None, []) (split_chr nl c))"

section \<open>The skill directory\<close>

text \<open>
  The answer of \<open>(skill_path / p).exists()\<close>: the path exists, it does not, or the call
  raises an OSError (as it does for a name that is too long for the file system).
\<close>

datatype exists_result = Exists | Missing | Fails

text \<open>
  What the tools read from a skill directory, one field per kind of call: the text of
  SKILL.md (\<open>None\<close> when the file does not exist), the answer of \<open>exists()\<close> for a
  path relative to the directory, and the entry names of the three companion
  subdirectories as \<open>iterdir()\<close> lists them (\<open>None\<close> when the subdirectory does not
  exist). The fields are the answers of the file system; nothing below relies on
  answers that disagree with each other.
\<close>

record skill_dir =
  skill_md :: "string option"
  path_exists :: "string \<Rightarrow> exists_result"
  scripts_entries :: "string list option"
  references_entries :: "string list option"
  assets_entries :: "string list option"

text \<open>\<open>_find_scripts\<close>: \<open>scripts_dir.glob("*.py")\<close>, as names.\<close>

definition find_scripts :: "skill_dir \<Rightarrow> string list" where
  "find_scripts d =
     (case scripts_entries d of
        None \<Rightarrow> []
      | Some names \<Rightarrow> filter (\<lambda>n. endswith n ''.py'') names)"

datatype py_error = FileNotFoundError | ZeroDivisionError | TypeError | OSError

text \<open>
  \<open>SkillDocAnalyzer.__init__\<close>: \<open>analyzer_of\<close> is the analyzer for a text and the
  script names found.
\<close>

definition analyzer_of :: "string \<Rightarrow> string list \<Rightarrow> analyzer" where
  "analyzer_of c script_names =
     \<lparr>content = c, frontmatter = parse_frontmatter c,
      sections = parse_sections c, scripts = script_names\<rparr>"

definition new_analyzer :: "skill_dir \<Rightarrow> py_error + analyzer" where
  "new_analyzer d =
     (case skill_md d of
        None \<Rightarrow> Inl FileNotFoundError
      | Some c \<Rightarrow> Inr (analyzer_of c (find_scripts d)))"

text \<open>
  \<open>_identify_gaps\<close>; \<open>refs_md\<close> says whether references/ exists and holds a
  \<open>*.md\<close> entry.
\<close>

definition identify_gaps :: "bool \<Rightarrow> analyzer \<Rightarrow> string list" where
  "identify_gaps refs_md a =
     (let gaps = [];
          gaps = (if \<not> contains (lower (content a)) ''trigger''
                     \<and> \<not> contains (lower (content a)) ''activated''
                  then gaps @ [''No clear activation triggers documented''] else gaps);
          gaps = (if ''Troubleshooting'' \<notin> dom (sections a)
                     \<and> \<not> contains (lower (content a)) ''troubleshoot''
                  then gaps @ [''No troubleshooting section''] else gaps);
          gaps = (if scripts a \<noteq> [] \<and> \<not> contains (content a) ''scripts/''
                  then gaps @ [''Scripts exist but aren't documented''] else gaps);
          gaps = (if refs_md \<and> \<not> contains (content a) ''references/''
                  then gaps @ [''Reference files exist but aren't documented''] else gaps)
      in gaps)"

text \<open>\<open>_generate_suggestions\<close>\<close>

definition generate_suggestions :: "analyzer \<Rightarrow> string list" where
  "generate_suggestions a =
     (let suggestions = [];
          suggestions =
            (case frontmatter a ''description'' of
               Some desc \<Rightarrow>
                 (if length desc < 100
                  then suggestions @ [''Expand description to ~100-150 chars (currently ''
                         @ str_of_nat (length desc)
                         @ ''). Include specific trigger terms and use cases.'']
                  else suggestions)
             | None \<Rightarrow> suggestions);
          suggestions =
            (if count_code_blocks (content a) < 2
             then suggestions @ [''Add more usage examples: basic use case, intermediate, and advanced scenarios'']
             else suggestions);
          suggestions =
            (if ''Troubleshooting'' \<notin> dom (sections a)
             then suggestions @ [''Add Troubleshooting section with common issues and solutions'']
             else suggestions);
          suggestions =
            (if ''Best Practices'' \<notin> dom (sections a)
             then suggestions @ [''Add Best Practices section with DO/DON'T guidance'']
             else suggestions)
      in suggestions
         @ map (\<lambda>name. ''Document script '' @ [CHR 0x27] @ name @ [CHR 0x27]
                          @ '' with usage examples'')
             (filter (\<lambda>name. \<not> contains (content a) name) (scripts a)))"

text \<open>\<open>analyze\<close>: the dictionary it returns, one field per key.\<close>

record analysis =
  frontmatter_score :: "int \<times> int \<times> string list"
  structure_score :: "int \<times> int \<times> string list"
  example_score :: "int \<times> int \<times> string list"
  clarity_score :: "int \<times> int \<times> string list"
  overall_score :: int
  gaps :: "string list"
  suggestions :: "string list"

definition analyze :: "bool \<Rightarrow> analyzer \<Rightarrow> analysis" where
  "analyze refs_md a =
     \<lparr>frontmatter_score = score_frontmatter a,
      structure_score = score_structure a,
      example_score = score_examples a,
      clarity_score = score_clarity a,
      overall_score = 0,
      gaps = identify_gaps refs_md a,
      suggestions = generate_suggestions a\<rparr>"

text \<open>
  The argument \<open>refs_md\<close> of \<open>analyze\<close> for a directory:
  \<open>refs_dir.exists() and list(refs_dir.glob("*.md"))\<close>.
\<close>

definition has_reference_docs :: "skill_dir \<Rightarrow> bool" where
  "has_reference_docs d =
     (case references_entries d of
        None \<Rightarrow> False
      | Some names \<Rightarrow> list_ex (\<lambda>n. endswith n ''.md'') names)"

section \<open>Python floats in the overall percentage\<close>

text \<open>
  \<open>print_report\<close> computes \<open>int((total_score / total_max) * 100)\<close>. In Python 3 the
  quotient of two ints is a float (IEEE 754 binary64), the product with \<open>100\<close> is a
  float product, and \<open>int\<close> truncates towards zero. A finite float is a rational; a
  float operation returns the exact result rounded to 53 significant bits, to nearest
  with ties to even. \<open>round_double\<close> is that rounding for results in the normal range
  of binary64 (magnitude from \<open>2 powi -1022\<close> up to \<open>2 powi 1024\<close>, or zero), which
  holds all quotients and products of \<open>print_report\<close>.
\<close>

text \<open>The integer \<open>k\<close> with \<open>2 powi k \<le> q < 2 powi (k + 1)\<close>, for \<open>q > 0\<close>.\<close>

definition ilog2 :: "rat \<Rightarrow> int" where
  "ilog2 q = (if q \<ge> 1 then bitlen \<lfloor>q\<rfloor> - 1 else - bitlen (\<lceil>1 / q\<rceil> - 1))"

text \<open>Rounding to the nearest integer, ties to the even one.\<close>

definition round_even :: "rat \<Rightarrow> int" where
  "round_even q =
     (let f = \<lfloor>q\<rfloor>; r = q - of_int f
      in if r < 1 / 2 then f
         else if r > 1 / 2 then f + 1
         else if even f then f else f + 1)"

definition round_double :: "rat \<Rightarrow> rat" where
  "round_double q =
     (if q = 0 then 0
      else (let e = ilog2 \<bar>q\<bar> - 52;
                m = round_even (\<bar>q\<bar> / (2 powi e))
            in sgn q * of_int m * (2 powi e)))"

text \<open>\<open>a / b\<close> on ints: the correctly rounded quotient, or ZeroDivisionError.\<close>

definition py_truediv :: "int \<Rightarrow> int \<Rightarrow> py_error + rat" where
  "py_truediv a b =
     (if b = 0 then Inl ZeroDivisionError else Inr (round_double (of_int a / of_int b)))"

text \<open>\<open>x * n\<close> for a float \<open>x\<close> and an int \<open>n\<close> that a float holds exactly.\<close>

definition py_float_mul :: "rat \<Rightarrow> int \<Rightarrow> rat" where
  "py_float_mul x n = round_double (x * of_int n)"

text \<open>\<open>int(x)\<close> on a float: truncation towards zero.\<close>

definition py_int :: "rat \<Rightarrow> int" where
  "py_int x = (if x \<ge> 0 then \<lfloor>x\<rfloor> else \<lceil>x\<rceil>)"

section \<open>The report (print\_report)\<close>

text \<open>\<open>int((total_score / total_max) * 100)\<close>\<close>

definition overall_percentage :: "int \<Rightarrow> int \<Rightarrow> py_error + int" where
  "overall_percentage total_score total_max =
     (case py_truediv total_score total_max of
        Inl err \<Rightarrow> Inl err
      | Inr ratio \<Rightarrow> Inr (py_int (py_float_mul ratio 100)))"

text \<open>
  The three lines that \<open>print_report\<close> can print under the overall score:
  "Excellent documentation quality", "Good, but could be improved" and
  "Needs significant improvement".
\<close>

datatype verdict = Excellent | Good | Needs_improvement

record report =
  total_score :: int
  total_max :: int
  overall_pct :: int
  classification :: verdict

text \<open>The overall score of an analysis, as \<open>print_report\<close> computes and prints it.\<close>

definition classify :: "int \<Rightarrow> verdict" where
  "classify pct =
     (if pct \<ge> 80 then Excellent
      else if pct \<ge> 60 then Good
      else Needs_improvement)"

definition report_of :: "analysis \<Rightarrow> py_error + report" where
  "report_of an =
     (let total_score = fst (frontmatter_score an) + fst (structure_score an)
                          + fst (example_score an) + fst (clarity_score an);
          total_max = fst (snd (frontmatter_score an)) + fst (snd (structure_score an))
                        + fst (snd (example_score an)) + fst (snd (clarity_score an))
      in case overall_percentage total_score total_max of
           Inl err \<Rightarrow> Inl err
         | Inr pct \<Rightarrow>
             Inr \<lparr>total_score = total_score, total_max = total_max,
                  overall_pct = pct, classification = classify pct\<rparr>)"

definition print_report :: "bool \<Rightarrow> analyzer \<Rightarrow> py_error + report" where
  "print_report refs_md a = report_of (analyze refs_md a)"

section \<open>The validator (package\_skill.py)\<close>

text \<open>
  \<open>yaml.safe_load\<close> belongs to the PyYAML library, not to the repository: the
  validator takes it as a parameter (a field of \<open>runtime\<close> below). Its outcome is a
  \<open>yaml.YAMLError\<close> with a message, a value that is no dictionary, or a dictionary;
  keys and values are strings or values of another type. A dictionary is a list of
  pairs, each key once.
\<close>

datatype yaml_value = YStr string | YOther

datatype yaml_doc =
    Yaml_error string
  | Yaml_no_dict
  | Yaml_dict "(yaml_value \<times> yaml_value) list"

text \<open>
  The validator builds two Python sets and loops over them. The order in which a set
  yields its elements is not fixed by the language (for strings it changes with the hash
  seed of the process), so the model takes it as a parameter too: a function from the
  elements of the set, listed once each in the order of insertion, to the order of
  iteration.
\<close>

record runtime =
  safe_load :: "string \<Rightarrow> yaml_doc"
  key_order :: "yaml_value list \<Rightarrow> yaml_value list"
  path_order :: "string list \<Rightarrow> string list"

text \<open>An iteration yields each element of the set once.\<close>

definition lists_the_set :: "('a list \<Rightarrow> 'a list) \<Rightarrow> bool" where
  "lists_the_set order =
     (\<forall>xs. distinct xs \<longrightarrow> distinct (order xs) \<and> set (order xs) = set xs)"

text \<open>The two lists of \<open>SkillValidator\<close>.\<close>

record validator =
  errors :: "string list"
  warnings :: "string list"

text \<open>
  What leaves a check early: the validator's own \<open>ValidationError\<close> with its message,
  or another Python exception, which \<open>validate\<close> does not catch. The checks mutate
  the validator, so a check that raises returns the exception together with the
  validator as it is at the raise.
\<close>

datatype exn = ValidationError string | Uncaught py_error

text \<open>\<open>_check_skill_md_exists\<close>\<close>

definition check_skill_md_exists :: "skill_dir \<Rightarrow> validator \<Rightarrow> exn \<times> validator + validator" where
  "check_skill_md_exists d v =
     (case skill_md d of
        None \<Rightarrow> Inl (ValidationError ''SKILL.md not found'', v)
      | Some c \<Rightarrow> Inr v)"

text \<open>
  \<open>parts = content.split("---", 2)\<close> for a text that starts with three dashes:
  \<open>parts[0]\<close> is empty, and there are three parts exactly when three dashes occur
  again after the first three; \<open>parts[1]\<close> is the text between.
\<close>

definition frontmatter_part :: "string \<Rightarrow> string option" where
  "frontmatter_part c =
     (case find_sub (drop 3 c) ''---'' of
        None \<Rightarrow> None
      | Some i \<Rightarrow> Some (take i (drop 3 c)))"

text \<open>\<open>key in frontmatter\<close> and \<open>frontmatter[key]\<close> go through \<open>map_of\<close>.\<close>

definition yaml_keys :: "(yaml_value \<times> yaml_value) list \<Rightarrow> yaml_value list" where
  "yaml_keys fm = remdups (map fst fm)"

text \<open>
  \<open>extra_fields = set(frontmatter.keys()) - {"name", "description"}\<close>, its elements
  once each.
\<close>

definition extra_fields :: "(yaml_value \<times> yaml_value) list \<Rightarrow> yaml_value list" where
  "extra_fields fm =
     filter (\<lambda>k. k \<noteq> YStr ''name'' \<and> k \<noteq> YStr ''description'') (yaml_keys fm)"

text \<open>
  \<open>', '.join(extra_fields)\<close> joins the keys in the order of iteration; it raises a
  TypeError when a key is no string.
\<close>

fun yaml_strings :: "yaml_value list \<Rightarrow> string list option" where
  "yaml_strings [] = Some []"
| "yaml_strings (YStr s # ks) =
     (case yaml_strings ks of None \<Rightarrow> None | Some ss \<Rightarrow> Some (s # ss))"
| "yaml_strings (YOther # ks) = None"

definition short_description_warning :: string where
  "short_description_warning =
     ''Description is quite short. Consider adding more detail about what the skill does and when to use it.''"

definition extra_fields_prefix :: string where
  "extra_fields_prefix = ''Frontmatter contains extra fields: ''"

definition name_error :: string where
  "name_error = [CHR 0x27] @ ''name'' @ [CHR 0x27] @ '' field must be a non-empty string''"

definition description_error :: string where
  "description_error =
     [CHR 0x27] @ ''description'' @ [CHR 0x27] @ '' field must be a non-empty string''"

text \<open>
  The last part of \<open>_validate_frontmatter\<close>, from the check of the name on, for a
  dictionary that has both keys.
\<close>

definition validate_fields ::
  "runtime \<Rightarrow> (yaml_value \<times> yaml_value) list \<Rightarrow> yaml_value \<Rightarrow> yaml_value \<Rightarrow> validator
     \<Rightarrow> exn \<times> validator + validator" where
  "validate_fields rt fm name description v =
     (case name of
        YOther \<Rightarrow> Inl (ValidationError name_error, v)
      | YStr n \<Rightarrow>
          if strip n = [] then Inl (ValidationError name_error, v)
          else (case description of
                  YOther \<Rightarrow> Inl (ValidationError description_error, v)
                | YStr desc \<Rightarrow>
                    if strip desc = [] then Inl (ValidationError description_error, v)
                    else
                      (let v = (if contains desc ''TODO'' \<or> contains desc ''TODO:''
                                then v\<lparr>warnings := warnings v @ [''Description contains TODO placeholders'']\<rparr>
                                else v);
                           v = (if length desc < 50
                                then v\<lparr>warnings := warnings v @ [short_description_warning]\<rparr>
                                else v)
                       in if extra_fields fm \<noteq> [] then
                            (case yaml_strings (key_order rt (extra_fields fm)) of
                               None \<Rightarrow> Inl (Uncaught TypeError, v)
                             | Some names \<Rightarrow>
                                 Inr (v\<lparr>warnings := warnings v @
                                        [extra_fields_prefix @ join '', '' names
                                           @ ''. Only 'name' and 'description' are required.'']\<rparr>))
                          else Inr v)))"

text \<open>\<open>_validate_frontmatter\<close>, on the text of SKILL.md.\<close>

definition validate_frontmatter ::
  "runtime \<Rightarrow> string \<Rightarrow> validator \<Rightarrow> exn \<times> validator + validator" where
  "validate_frontmatter rt c v =
     (if \<not> startswith c ''---''
      then Inl (ValidationError ''SKILL.md must start with YAML frontmatter (---)'', v)
      else (case frontmatter_part c of
              None \<Rightarrow> Inl (ValidationError ''Invalid YAML frontmatter format'', v)
            | Some part \<Rightarrow>
                (case safe_load rt part of
                   Yaml_error e \<Rightarrow> Inl (ValidationError (''Invalid YAML frontmatter: '' @ e), v)
                 | Yaml_no_dict \<Rightarrow> Inl (ValidationError ''Frontmatter must be a YAML dictionary'', v)
                 | Yaml_dict fm \<Rightarrow>
                     (case map_of fm (YStr ''name'') of
                        None \<Rightarrow> Inl (ValidationError ''Frontmatter missing required 'name' field'', v)
                      | Some name \<Rightarrow>
                          (case map_of fm (YStr ''description'') of
                             None \<Rightarrow>
                               Inl (ValidationError ''Frontmatter missing required 'description' field'', v)
                           | Some description \<Rightarrow> validate_fields rt fm name description v)))))"

text \<open>\<open>_validate_structure\<close>\<close>

definition readme_warning :: string where
  "readme_warning =
     ''README.md found. Skills should only contain SKILL.md, not additional documentation files. Consider moving content to SKILL.md.''"

definition extraneous_files :: "string list" where
  "extraneous_files =
     [''INSTALLATION_GUIDE.md'', ''QUICK_REFERENCE.md'', ''CHANGELOG.md'', ''CONTRIBUTING.md'']"

definition extraneous_error :: "string \<Rightarrow> string" where
  "extraneous_error filename =
     filename @ '' found. Skills should not contain auxiliary documentation files.''"

text \<open>The loop over the extraneous file names.\<close>

fun check_extraneous ::
  "skill_dir \<Rightarrow> string list \<Rightarrow> validator \<Rightarrow> exn \<times> validator + validator" where
  "check_extraneous d [] v = Inr v"
| "check_extraneous d (filename # filenames) v =
     (case path_exists d filename of
        Fails \<Rightarrow> Inl (Uncaught OSError, v)
      | Exists \<Rightarrow>
          check_extraneous d filenames (v\<lparr>errors := errors v @ [extraneous_error filename]\<rparr>)
      | Missing \<Rightarrow> check_extraneous d filenames v)"

definition validate_structure :: "skill_dir \<Rightarrow> validator \<Rightarrow> exn \<times> validator + validator" where
  "validate_structure d v =
     (case path_exists d ''README.md'' of
        Fails \<Rightarrow> Inl (Uncaught OSError, v)
      | Exists \<Rightarrow>
          check_extraneous d extraneous_files (v\<lparr>warnings := warnings v @ [readme_warning]\<rparr>)
      | Missing \<Rightarrow> check_extraneous d extraneous_files v)"

text \<open>
  \<open>_check_file_references\<close>. \<open>match_link\<close> is one attempt of the pattern
  \<open>\[([^\]]+)\]\(([^)]+)\)\<close> at the start of a text: an opening bracket, one or more
  characters other than the closing bracket, the closing bracket and an opening
  parenthesis, one or more characters other than the closing parenthesis, and the
  closing parenthesis. Each class excludes the character that must follow it, so the
  greedy run is the only way to match. The result is the second group and the text
  after the match.
\<close>

definition match_link :: "string \<Rightarrow> (string \<times> string) option" where
  "match_link s =
     (case s of
        [] \<Rightarrow> None
      | c # s1 \<Rightarrow>
          if c \<noteq> CHR ''['' then None
          else (let label = takeWhile (\<lambda>x. x \<noteq> CHR '']'') s1;
                    s2 = dropWhile (\<lambda>x. x \<noteq> CHR '']'') s1
                in if label = [] \<or> \<not> startswith s2 ''](''  then None
                   else (let target = takeWhile (\<lambda>x. x \<noteq> CHR '')'') (drop 2 s2);
                             s3 = dropWhile (\<lambda>x. x \<noteq> CHR '')'') (drop 2 s2)
                         in if target = [] \<or> s3 = [] then None
                            else Some (target, tl s3))))"

text \<open>\<open>re.findall\<close> with that pattern, keeping \<open>match[1]\<close> of each match.\<close>

function findall_links :: "string \<Rightarrow> string list" where
  "findall_links s =
     (if s = [] then []
      else (case match_link s of
              Some (target, rest) \<Rightarrow> target # findall_links rest
            | None \<Rightarrow> findall_links (tl s)))"
  by pat_completeness auto
termination
proof (relation "measure length")
  fix s :: string and x2 target rest
  assume "s \<noteq> []" and "match_link s = Some x2" and "(target, rest) = x2"
  then have m: "match_link s = Some (target, rest)"
    by simp
  have le: "length (dropWhile P xs) \<le> length xs" for P and xs :: string
    by (rule length_dropWhile_le)
  from m obtain c s1 where s: "s = c # s1"
    by (cases s) (auto simp: match_link_def)
  let ?s2 = "dropWhile (\<lambda>x. x \<noteq> CHR '']'') s1"
  let ?s3 = "dropWhile (\<lambda>x. x \<noteq> CHR '')'') (drop 2 ?s2)"
  from m s have rest: "rest = tl ?s3"
    by (auto simp: match_link_def Let_def split: if_splits)
  have "length ?s3 \<le> length (drop 2 ?s2)"
    by (rule le)
  also have "\<dots> \<le> length ?s2"
    by simp
  also have "\<dots> \<le> length s1"
    by (rule le)
  finally have "length rest < length s"
    using rest s by simp
  then show "(rest, s) \<in> measure length"
    by simp
qed auto

declare findall_links.simps [simp del]

text \<open>
  The pattern \<open>`([^`]+\.(py|sh|md|txt))`\<close>: a backtick, the characters up to the next
  backtick, which must end in a dot and one of the four extensions after at least one
  other character. The second group is the extension.
\<close>

definition backtick :: char where
  "backtick = CHR 0x60"

definition code_ref_ext :: "string \<Rightarrow> string option" where
  "code_ref_ext body =
     (if length body > 3 \<and> endswith body ''.py'' then Some ''py''
      else if length body > 3 \<and> endswith body ''.sh'' then Some ''sh''
      else if length body > 3 \<and> endswith body ''.md'' then Some ''md''
      else if length body > 4 \<and> endswith body ''.txt'' then Some ''txt''
      else None)"

definition match_code_ref :: "string \<Rightarrow> (string \<times> string) option" where
  "match_code_ref s =
     (case s of
        [] \<Rightarrow> None
      | c # s1 \<Rightarrow>
          if c \<noteq> backtick then None
          else (let body = takeWhile (\<lambda>x. x \<noteq> backtick) s1;
                    s2 = dropWhile (\<lambda>x. x \<noteq> backtick) s1
                in if s2 = [] then None
                   else (case code_ref_ext body of
                           None \<Rightarrow> None
                         | Some ext \<Rightarrow> Some (ext, tl s2))))"

function findall_code_refs :: "string \<Rightarrow> string list" where
  "findall_code_refs s =
     (if s = [] then []
      else (case match_code_ref s of
              Some (ext, rest) \<Rightarrow> ext # findall_code_refs rest
            | None \<Rightarrow> findall_code_refs (tl s)))"
  by pat_completeness auto
termination
proof (relation "measure length")
  fix s :: string and x2 ext rest
  assume "s \<noteq> []" and "match_code_ref s = Some x2" and "(ext, rest) = x2"
  then have m: "match_code_ref s = Some (ext, rest)"
    by simp
  from m obtain c s1 where s: "s = c # s1"
    by (cases s) (auto simp: match_code_ref_def)
  from m s have rest: "rest = tl (dropWhile (\<lambda>x. x \<noteq> backtick) s1)"
    by (auto simp: match_code_ref_def Let_def split: if_splits option.splits)
  have "length (dropWhile (\<lambda>x. x \<noteq> backtick) s1) \<le> length s1"
    by (rule length_dropWhile_le)
  then have "length rest < length s"
    using rest s by simp
  then show "(rest, s) \<in> measure length"
    by simp
qed auto

declare findall_code_refs.simps [simp del]

text \<open>
  \<open>referenced_files\<close>: \<open>match[1]\<close> of every match of the two patterns, URLs and
  anchors left out. The source collects them in a set; \<open>referenced_files\<close> lists its
  elements once each, in the order of insertion.
\<close>

definition is_url_or_anchor :: "string \<Rightarrow> bool" where
  "is_url_or_anchor filepath =
     (startswith filepath ''http://'' \<or> startswith filepath ''https://''
        \<or> startswith filepath ''#'')"

definition referenced_files :: "string \<Rightarrow> string list" where
  "referenced_files c =
     remdups (filter (\<lambda>filepath. \<not> is_url_or_anchor filepath)
                (findall_links c @ findall_code_refs c))"

definition reference_warning :: "string \<Rightarrow> string" where
  "reference_warning filepath = ''Referenced file not found: '' @ filepath"

text \<open>The loop over the referenced files, in the order of iteration of the set.\<close>

fun check_references ::
  "skill_dir \<Rightarrow> string list \<Rightarrow> validator \<Rightarrow> exn \<times> validator + validator" where
  "check_references d [] v = Inr v"
| "check_references d (filepath # filepaths) v =
     (case path_exists d filepath of
        Fails \<Rightarrow> Inl (Uncaught OSError, v)
      | Exists \<Rightarrow> check_references d filepaths v
      | Missing \<Rightarrow>
          check_references d filepaths
            (v\<lparr>warnings := warnings v @ [reference_warning filepath]\<rparr>))"

definition check_file_references ::
  "runtime \<Rightarrow> skill_dir \<Rightarrow> string \<Rightarrow> validator \<Rightarrow> exn \<times> validator + validator" where
  "check_file_references rt d c v =
     check_references d (path_order rt (referenced_files c)) v"

text \<open>
  \<open>len(content.splitlines())\<close> on code points below 256: a line ends at a line feed,
  carriage return (with a line feed right after it as one boundary), vertical tab, form
  feed, U+001C, U+001D, U+001E or U+0085; no empty line follows the last boundary.
\<close>

definition is_linebreak :: "char \<Rightarrow> bool" where
  "is_linebreak c =
     (let n = (of_char c :: nat)
      in (10 \<le> n \<and> n \<le> 13) \<or> (28 \<le> n \<and> n \<le> 30) \<or> n = 133)"

fun count_lines :: "string \<Rightarrow> nat" where
  "count_lines [] = 0"
| "count_lines [c] = 1"
| "count_lines (c # c' # s) =
     (if c = CHR 0x0D \<and> c' = CHR 0x0A then 1 + count_lines s
      else if is_linebreak c then 1 + count_lines (c' # s)
      else count_lines (c' # s))"

text \<open>\<open>_check_token_budget\<close>\<close>

definition check_token_budget :: "string \<Rightarrow> validator \<Rightarrow> validator" where
  "check_token_budget c v =
     (let estimated_tokens = length c div 4;
          v = (if estimated_tokens > 5000
               then v\<lparr>warnings := warnings v @
                      [''SKILL.md is large (~'' @ str_of_nat estimated_tokens
                         @ '' tokens). Consider moving content to reference files.'']\<rparr>
               else v);
          line_count = count_lines c
      in if line_count > 500
         then v\<lparr>warnings := warnings v @
                [''SKILL.md has '' @ str_of_nat line_count
                   @ '' lines. Consider keeping it under 500 lines and using references.'']\<rparr>
         else v)"

text \<open>
  The body of the \<open>try\<close> in \<open>validate\<close>: the five checks in order, stopping at the
  first that raises.
\<close>

definition run_checks ::
  "runtime \<Rightarrow> skill_dir \<Rightarrow> validator \<Rightarrow> exn \<times> validator + validator" where
  "run_checks rt d v =
     (case check_skill_md_exists d v of
        Inl e \<Rightarrow> Inl e
      | Inr v \<Rightarrow>
          (case skill_md d of
             None \<Rightarrow> Inl (Uncaught FileNotFoundError, v)
           | Some c \<Rightarrow>
               (case validate_frontmatter rt c v of
                  Inl e \<Rightarrow> Inl e
                | Inr v \<Rightarrow>
                    (case validate_structure d v of
                       Inl e \<Rightarrow> Inl e
                     | Inr v \<Rightarrow>
                         (case check_file_references rt d c v of
                            Inl e \<Rightarrow> Inl e
                          | Inr v \<Rightarrow> Inr (check_token_budget c v))))))"

text \<open>
  \<open>validate\<close>: the returned flag and the validator afterwards, or the exception that
  escapes.
\<close>

definition validate :: "runtime \<Rightarrow> skill_dir \<Rightarrow> py_error + bool \<times> validator" where
  "validate rt d =
     (case run_checks rt d \<lparr>errors = [], warnings = []\<rparr> of
        Inr v \<Rightarrow> Inr (errors v = [], v)
      | Inl (ValidationError msg, v) \<Rightarrow> Inr (False, v\<lparr>errors := errors v @ [msg]\<rparr>)
      | Inl (Uncaught e, v) \<Rightarrow> Inl e)"

section \<open>The lint command (forge.py)\<close>










section \<open>Example documents and directories\<close>

text \<open>A directory that holds SKILL.md with the given text and nothing else.\<close>

definition skill_with :: "string \<Rightarrow> skill_dir" where
  "skill_with c =
     \<lparr>skill_md = Some c,
      path_exists = (\<lambda>p. if p = ''SKILL.md'' then Exists else Missing),
      scripts_entries = None, references_entries = None, assets_entries = None\<rparr>"

text \<open>A document with an Overview section and no Purpose section.\<close>

definition doc_overview :: string where
  "doc_overview =
     ''## Overview'' @ [nl] @ ''Intro'' @ [nl] @ ''## Usage'' @ [nl] @ ''Run it''"

text \<open>A description of exactly 100 characters with the word trigger and no TODO.\<close>

definition desc100 :: string where
  "desc100 =
     ''Reviews skill documentation for gaps; trigger it to score a SKILL.md file and list missing sections.''"

text \<open>A document whose frontmatter has that description and no name.\<close>

definition doc_no_name :: string where
  "doc_no_name =
     ''---'' @ [nl] @ ''description: '' @ desc100 @ [nl] @ ''---'' @ [nl] @ ''# Demo'' @ [nl]"

text \<open>The same with a name.\<close>

definition doc_named :: string where
  "doc_named =
     ''---'' @ [nl] @ ''name: demo'' @ [nl] @ ''description: '' @ desc100 @ [nl]
       @ ''---'' @ [nl] @ ''# Demo'' @ [nl]"

text \<open>
  A document with no frontmatter and no section, one fenced code block, three TODO
  markers and the phrase "When to use".
\<close>

definition doc29 :: string where
  "doc29 = fence @ ''x'' @ fence @ [nl] @ ''todo todo todo'' @ [nl] @ ''When to use''"

text \<open>A second-level section followed by a top-level heading.\<close>

definition doc_nested :: string where
  "doc_nested = ''## A'' @ [nl] @ ''x'' @ [nl] @ ''# B'' @ [nl] @ ''y''"

text \<open>The lines of a document with text before, inside and after a section A.\<close>

definition lines_nested :: "string list" where
  "lines_nested = [''intro'', ''## A'', ''x'', ''# B'', ''y'', ''## C'', ''z'']"

text \<open>A document with no frontmatter, in a directory that also holds README.md.\<close>

definition doc_plain :: string where
  "doc_plain = ''# Demo'' @ [nl] @ ''No frontmatter here.''"


text \<open>
  A runtime whose YAML parser returns the frontmatter of \<open>doc_named\<close> and whose sets
  iterate in the order of insertion.
\<close>

definition rt_named :: runtime where
  "rt_named =
     \<lparr>safe_load = (\<lambda>part. Yaml_dict [(YStr ''name'', YStr ''demo''),
                                      (YStr ''description'', YStr desc100)]),
      key_order = (\<lambda>ks. ks), path_order = (\<lambda>ps. ps)\<rparr>"











text \<open>A text that names a script between backticks.\<close>

definition doc_backtick :: string where
  "doc_backtick = ''Run '' @ [backtick] @ ''scripts/run.py'' @ [backtick] @ '' first.''"

text \<open>
  A valid skill with a link to a file under assets that does not exist, in a directory
  whose assets subdirectory holds README.md alone.
\<close>

definition doc_asset_link :: string where
  "doc_asset_link = doc_named @ ''See [logo](assets/logo.png).'' @ [nl]"

definition dir_asset_link :: skill_dir where
  "dir_asset_link =
     \<lparr>skill_md = Some doc_asset_link,
      path_exists = (\<lambda>p. if p = ''SKILL.md'' \<or> p = ''assets'' \<or> p = ''assets/README.md''
                         then Exists else Missing),
      scripts_entries = None, references_entries = None,
      assets_entries = Some [''README.md'']\<rparr>"

section \<open>Verified properties\<close>

subsection \<open>Evaluation of the example documents\<close>

lemma parse_sections_doc_overview:
  "parse_sections doc_overview = [''Overview'' \<mapsto> ''Intro'', ''Usage'' \<mapsto> ''Run it'']"
  by (simp add: parse_sections_def doc_overview_def nl_def strip_def isspace_def)

lemma parse_frontmatter_doc_no_name:
  "parse_frontmatter doc_no_name = [''description'' \<mapsto> desc100]"
  by (simp add: parse_frontmatter_def frontmatter_block_def doc_no_name_def desc100_def nl_def
      frontmatter_step_def strip_def isspace_def)

lemma parse_frontmatter_doc_named:
  "parse_frontmatter doc_named = [''name'' \<mapsto> ''demo'', ''description'' \<mapsto> desc100]"
  by (simp add: parse_frontmatter_def frontmatter_block_def doc_named_def desc100_def nl_def
      frontmatter_step_def strip_def isspace_def)

lemma desc100_facts:
  "length desc100 = 100 \<and> contains desc100 ''trigger'' \<and> \<not> contains desc100 ''TODO''"
  by (simp add: desc100_def)

subsection \<open>Substrings under lower-casing\<close>

lemma startswith_map: "startswith s p \<Longrightarrow> startswith (map f s) (map f p)"
  by (induction s p rule: startswith.induct) auto

lemma contains_map: "contains s p \<Longrightarrow> contains (map f s) (map f p)"
proof (induction s)
  case Nil
  then show ?case by simp
next
  case (Cons c s)
  then show ?case
    using startswith_map [of "c # s" p f] by auto
qed

lemma lower_trigger: "lower ''trigger'' = ''trigger''"
  by (simp add: lower_def lower_chr_def)

lemma contains_lower_trigger:
  "contains desc ''trigger'' \<Longrightarrow> contains (lower desc) ''trigger''"
  using contains_map [of desc "''trigger''" lower_chr] lower_trigger by (simp add: lower_def)

subsection \<open>The analysis result\<close>

text \<open>
  C10. The result of \<open>analyze\<close> has 0 under \<open>overall_score\<close> for every document, and
  the report does not read that entry: the percentage is computed in the report from
  the four sub-scores alone, whatever the entry holds.
\<close>

theorem analyze_overall_score_zero:
  "overall_score (analyze refs_md a) = 0
   \<and> report_of ((analyze refs_md a)\<lparr>overall_score := v\<rparr>) = report_of (analyze refs_md a)"
  by (simp add: analyze_def report_of_def)

subsection \<open>Structural completeness\<close>

text \<open>
  C4. The structure score is 5 points for each of the titles Purpose, Usage, Bundled
  Resources, Best Practices and Troubleshooting found among the sections. The first
  checklist entry, written \<open>'Purpose' or 'Overview'\<close>, is the title Purpose: when the
  sections hold Overview and not Purpose, the turn of the loop for that entry leaves the
  score as it is and reports Purpose as missing, and the score is 5 points for each of
  the other four titles found.
\<close>

theorem structure_score_checklist:
  "fst (score_structure a) =
     5 * int (length (filter (\<lambda>t. t \<in> dom (sections a))
               [''Purpose'', ''Usage'', ''Bundled Resources'', ''Best Practices'',
                ''Troubleshooting'']))
   \<and> (''Overview'' \<in> dom (sections a) \<and> ''Purpose'' \<notin> dom (sections a) \<longrightarrow>
        structure_step (sections a) (score, issues) (hd recommended_sections)
          = (score, issues @ [''Missing recommended section: Purpose''])
        \<and> fst (score_structure a) =
            5 * int (length (filter (\<lambda>t. t \<in> dom (sections a))
                      [''Usage'', ''Bundled Resources'', ''Best Practices'',
                       ''Troubleshooting''])))"
  by (simp add: score_structure_def recommended_sections_def py_or_def split: prod.splits)

theorem structure_score_checklist_witness:
  "''Overview'' \<in> dom (sections (analyzer_of doc_overview []))
   \<and> ''Purpose'' \<notin> dom (sections (analyzer_of doc_overview []))
   \<and> structure_step (sections (analyzer_of doc_overview [])) (0, []) (hd recommended_sections)
       = (0, [''Missing recommended section: Purpose''])
   \<and> fst (score_structure (analyzer_of doc_overview [])) = 5"
  using structure_score_checklist [of "analyzer_of doc_overview []" 0 "[]"]
  by (simp add: analyzer_of_def parse_sections_doc_overview)

subsection \<open>Ranges of the sub-scores\<close>

lemma score_frontmatter_range:
  "0 \<le> fst (score_frontmatter a) \<and> fst (score_frontmatter a) \<le> 20
   \<and> fst (snd (score_frontmatter a)) = 20"
  by (simp add: score_frontmatter_def Let_def split: option.splits prod.splits)

lemma score_structure_range:
  "0 \<le> fst (score_structure a) \<and> fst (score_structure a) \<le> 25
   \<and> fst (snd (score_structure a)) = 25"
  by (simp add: score_structure_def recommended_sections_def py_or_def Let_def
      split: option.splits prod.splits)

lemma score_examples_range:
  "0 \<le> fst (score_examples a) \<and> fst (score_examples a) \<le> 30
   \<and> fst (snd (score_examples a)) = 30"
  by (simp add: score_examples_def Let_def split: option.splits prod.splits)

lemma score_clarity_range:
  "5 \<le> fst (score_clarity a) \<and> fst (score_clarity a) \<le> 25
   \<and> fst (snd (score_clarity a)) = 25"
  by (auto simp: score_clarity_def Let_def min_def)

text \<open>
  C6. For every analyzer state (text, frontmatter, sections, scripts), each of the four
  sub-scores lies between 0 and its maximum: 20 for the frontmatter, 25 for the
  structure, 30 for the examples, 25 for the clarity. The source has no clamping step;
  the arithmetic itself stays in range (the TODO deduction of the frontmatter score
  follows the 5 points for the description, and the clarity score is at least
  20 - 10 - 5).
\<close>

theorem sub_scores_in_range:
  "(0 \<le> fst (score_frontmatter a) \<and> fst (score_frontmatter a) \<le> fst (snd (score_frontmatter a))
      \<and> fst (snd (score_frontmatter a)) = 20)
   \<and> (0 \<le> fst (score_structure a) \<and> fst (score_structure a) \<le> fst (snd (score_structure a))
      \<and> fst (snd (score_structure a)) = 25)
   \<and> (0 \<le> fst (score_examples a) \<and> fst (score_examples a) \<le> fst (snd (score_examples a))
      \<and> fst (snd (score_examples a)) = 30)
   \<and> (0 \<le> fst (score_clarity a) \<and> fst (score_clarity a) \<le> fst (snd (score_clarity a))
      \<and> fst (snd (score_clarity a)) = 25)"
  using score_frontmatter_range [of a] score_structure_range [of a]
    score_examples_range [of a] score_clarity_range [of a]
  by simp

subsection \<open>The frontmatter score of a full description\<close>

text \<open>
  C7, as the code has it: when the frontmatter has a name, and its description is
  exactly 100 characters long, contains the word trigger and contains no TODO, the
  frontmatter score is 20 of 20, with no issue reported.
\<close>

theorem frontmatter_full_score:
  assumes "frontmatter a ''name'' = Some n"
    and "frontmatter a ''description'' = Some desc"
    and "length desc = 100"
    and "contains desc ''trigger''"
    and "\<not> contains desc ''TODO''"
  shows "score_frontmatter a = (20, 20, [])"
  using assms contains_lower_trigger [of desc]
  by (simp add: score_frontmatter_def trigger_keywords_def dom_def)

theorem frontmatter_full_score_witness:
  "frontmatter (analyzer_of doc_named []) ''name'' = Some ''demo''
   \<and> frontmatter (analyzer_of doc_named []) ''description'' = Some desc100
   \<and> length desc100 = 100 \<and> contains desc100 ''trigger'' \<and> \<not> contains desc100 ''TODO''
   \<and> score_frontmatter (analyzer_of doc_named []) = (20, 20, [])"
proof -
  have fm: "frontmatter (analyzer_of doc_named []) = [''name'' \<mapsto> ''demo'', ''description'' \<mapsto> desc100]"
    by (simp add: analyzer_of_def parse_frontmatter_doc_named)
  have n: "frontmatter (analyzer_of doc_named []) ''name'' = Some ''demo''"
    by (simp add: fm)
  have d: "frontmatter (analyzer_of doc_named []) ''description'' = Some desc100"
    by (simp add: fm)
  from frontmatter_full_score [OF n d] desc100_facts n d show ?thesis
    by simp
qed

text \<open>
  The claim without the name fails: the document \<open>doc_no_name\<close> has such a description
  and no name, and its frontmatter score is 15.
\<close>

theorem frontmatter_score_no_name_counterexample:
  "frontmatter (analyzer_of doc_no_name []) ''description'' = Some desc100
   \<and> length desc100 = 100 \<and> contains desc100 ''trigger'' \<and> \<not> contains desc100 ''TODO''
   \<and> score_frontmatter (analyzer_of doc_no_name [])
       = (15, 20, [''Missing 'name' field in frontmatter''])"
proof -
  have fm: "frontmatter (analyzer_of doc_no_name []) = [''description'' \<mapsto> desc100]"
    by (simp add: analyzer_of_def parse_frontmatter_doc_no_name)
  have "score_frontmatter (analyzer_of doc_no_name [])
          = (15, 20, [''Missing 'name' field in frontmatter''])"
    using desc100_facts contains_lower_trigger [of desc100]
    by (simp add: score_frontmatter_def fm trigger_keywords_def dom_def)
  with fm desc100_facts show ?thesis
    by simp
qed

subsection \<open>Rounding to binary64 is monotone\<close>

lemma ilog2_bounds:
  assumes "q > 0"
  shows "2 powi (ilog2 q) \<le> q \<and> q < 2 powi (ilog2 q + 1)"
proof (cases "q \<ge> 1")
  case True
  define n where "n = \<lfloor>q\<rfloor>"
  have n1: "n \<ge> 1" using True by (simp add: n_def)
  then have n0: "n > 0" by simp
  have bl: "bitlen n \<ge> 1" using n0 by (simp add: bitlen_alt_def)
  from bitlen_bounds [OF n0]
  have lo: "2 ^ nat (bitlen n - 1) \<le> n" and hi: "n < 2 ^ nat (bitlen n)" by auto
  have k: "ilog2 q = bitlen n - 1" using True by (simp add: ilog2_def n_def)
  have p1: "(2::rat) powi (bitlen n - 1) = 2 ^ nat (bitlen n - 1)"
    using bl by (simp add: power_int_def)
  have p2: "(2::rat) powi (bitlen n - 1 + 1) = 2 ^ nat (bitlen n)"
    using bl by (simp add: power_int_def)
  have "(2::rat) ^ nat (bitlen n - 1) \<le> of_int n"
    using lo by (metis of_int_le_iff of_int_numeral of_int_power)
  also have "\<dots> \<le> q" by (simp add: n_def)
  finally have a: "2 powi (ilog2 q) \<le> q" by (simp add: k p1)
  have "n + 1 \<le> 2 ^ nat (bitlen n)" using hi by simp
  then have "(of_int (n + 1) :: rat) \<le> 2 ^ nat (bitlen n)"
    by (metis of_int_le_iff of_int_numeral of_int_power)
  moreover have "q < of_int (n + 1)" unfolding n_def by linarith
  ultimately have "q < 2 ^ nat (bitlen n)" by linarith
  then have b: "q < 2 powi (ilog2 q + 1)" by (simp only: k p2)
  from a b show ?thesis by simp
next
  case False
  then have q1: "q < 1" by simp
  define c where "c = \<lceil>1 / q\<rceil>"
  define m where "m = c - 1"
  have inv: "1 / q > 1" using assms q1 by simp
  then have "c \<ge> 2" unfolding c_def by linarith
  then have m0: "m > 0" by (simp add: m_def)
  have bl: "bitlen m \<ge> 1" using m0 by (simp add: bitlen_alt_def)
  from bitlen_bounds [OF m0]
  have lo: "2 ^ nat (bitlen m - 1) \<le> m" and hi: "m < 2 ^ nat (bitlen m)" by auto
  have k: "ilog2 q = - bitlen m" using False by (simp add: ilog2_def m_def c_def)
  have p1: "(2::rat) powi (- bitlen m) = 1 / 2 ^ nat (bitlen m)"
    using bl by (simp add: power_int_def field_simps)
  have p2: "(2::rat) powi (- bitlen m + 1) = 1 / 2 ^ nat (bitlen m - 1)"
    using bl by (simp add: power_int_def field_simps nat_diff_distrib)
  have "c \<le> 2 ^ nat (bitlen m)" using hi by (simp add: m_def)
  then have "(of_int c :: rat) \<le> 2 ^ nat (bitlen m)"
    by (metis of_int_le_iff of_int_numeral of_int_power)
  moreover have "1 / q \<le> of_int c" by (simp add: c_def)
  ultimately have "1 / q \<le> 2 ^ nat (bitlen m)" by linarith
  then have a: "1 / 2 ^ nat (bitlen m) \<le> q"
    using assms by (simp add: field_simps)
  have "(2::rat) ^ nat (bitlen m - 1) \<le> of_int m"
    using lo by (metis of_int_le_iff of_int_numeral of_int_power)
  moreover have "of_int m < 1 / q" unfolding m_def c_def by linarith
  ultimately have "2 ^ nat (bitlen m - 1) < 1 / q" by linarith
  then have b: "q < 1 / 2 ^ nat (bitlen m - 1)"
    using assms by (simp add: field_simps)
  from a b show ?thesis by (simp only: k p1 p2)
qed

lemma round_even_bounds: "of_int \<lfloor>q\<rfloor> \<le> (of_int (round_even q) :: rat) \<and> round_even q \<le> \<lfloor>q\<rfloor> + 1"
  by (simp add: round_even_def Let_def)

lemma round_even_of_int: "round_even (of_int n) = n"
  by (simp add: round_even_def)

lemma round_even_mono:
  assumes "q1 \<le> q2"
  shows "round_even q1 \<le> round_even q2"
proof (cases "\<lfloor>q1\<rfloor> = \<lfloor>q2\<rfloor>")
  case True
  with assms show ?thesis
    by (auto simp: round_even_def Let_def)
next
  case False
  with assms have "\<lfloor>q1\<rfloor> < \<lfloor>q2\<rfloor>"
    by (simp add: floor_mono order.strict_iff_order)
  then have "round_even q1 \<le> \<lfloor>q2\<rfloor>"
    using round_even_bounds [of q1] by linarith
  also have "\<dots> \<le> round_even q2"
    using round_even_bounds [of q2] by simp
  finally show ?thesis .
qed

lemma powi2_pos: "(2::rat) powi k > 0"
  by (simp add: power_int_def)

lemma powi2_mono: "a \<le> b \<Longrightarrow> (2::rat) powi a \<le> 2 powi b"
  by (rule power_int_increasing) simp_all

lemma ilog2_mono:
  assumes "0 < q1" "q1 \<le> q2"
  shows "ilog2 q1 \<le> ilog2 q2"
proof (rule ccontr)
  assume "\<not> ilog2 q1 \<le> ilog2 q2"
  then have "ilog2 q2 + 1 \<le> ilog2 q1" by simp
  then have "(2::rat) powi (ilog2 q2 + 1) \<le> 2 powi (ilog2 q1)"
    by (rule powi2_mono)
  also have "\<dots> \<le> q1" using ilog2_bounds [OF assms(1)] by simp
  finally have "2 powi (ilog2 q2 + 1) \<le> q2" using assms(2) by simp
  moreover have "q2 < 2 powi (ilog2 q2 + 1)"
    using ilog2_bounds [of q2] assms by simp
  ultimately show False by simp
qed

text \<open>The significand of a positive number lies between \<open>2 ^ 52\<close> and \<open>2 ^ 53\<close>.\<close>

lemma significand_bounds:
  assumes "q > 0"
  defines "e \<equiv> ilog2 q - 52"
  shows "2 ^ 52 \<le> round_even (q / (2 powi e)) \<and> round_even (q / (2 powi e)) \<le> 2 ^ 53"
proof -
  have pe: "(2::rat) powi e > 0" by (rule powi2_pos)
  have split1: "(2::rat) powi (ilog2 q) = 2 ^ 52 * 2 powi e"
    unfolding e_def by (simp add: power_int_diff)
  have split2: "(2::rat) powi (ilog2 q + 1) = 2 ^ 53 * 2 powi e"
    unfolding e_def by (simp add: power_int_diff power_int_add)
  from ilog2_bounds [OF assms(1)]
  have "2 ^ 52 * 2 powi e \<le> q" and "q < 2 ^ 53 * 2 powi e"
    by (simp_all add: split1 split2)
  then have lo: "of_int (2 ^ 52) \<le> q / (2 powi e)" and hi: "q / (2 powi e) \<le> of_int (2 ^ 53)"
    using pe by (simp_all add: field_simps)
  from round_even_mono [OF lo] round_even_mono [OF hi]
  show ?thesis by (simp only: round_even_of_int)
qed

lemma round_double_pos_eq:
  "q > 0 \<Longrightarrow> round_double q = of_int (round_even (q / (2 powi (ilog2 q - 52)))) * 2 powi (ilog2 q - 52)"
  by (simp add: round_double_def Let_def)

lemma round_double_mono_pos:
  assumes "0 < q1" "q1 \<le> q2"
  shows "round_double q1 \<le> round_double q2"
proof -
  have q2: "0 < q2" using assms by simp
  define e1 where "e1 = ilog2 q1 - 52"
  define e2 where "e2 = ilog2 q2 - 52"
  define m1 where "m1 = round_even (q1 / (2 powi e1))"
  define m2 where "m2 = round_even (q2 / (2 powi e2))"
  have r1: "round_double q1 = of_int m1 * 2 powi e1"
    using assms(1) by (simp add: round_double_pos_eq m1_def e1_def)
  have r2: "round_double q2 = of_int m2 * 2 powi e2"
    using q2 by (simp add: round_double_pos_eq m2_def e2_def)
  have b1: "2 ^ 52 \<le> m1" "m1 \<le> 2 ^ 53"
    using significand_bounds [OF assms(1)] by (simp_all add: m1_def e1_def)
  have b2: "2 ^ 52 \<le> m2" "m2 \<le> 2 ^ 53"
    using significand_bounds [OF q2] by (simp_all add: m2_def e2_def)
  have le: "e1 \<le> e2"
    using ilog2_mono [OF assms] by (simp add: e1_def e2_def)
  show ?thesis
  proof (cases "e1 = e2")
    case True
    have "q1 / (2 powi e1) \<le> q2 / (2 powi e1)"
      using assms(2) powi2_pos [of e1] by (simp add: divide_right_mono)
    then have "m1 \<le> m2"
      unfolding m1_def m2_def True [symmetric] by (rule round_even_mono)
    then have "(of_int m1 :: rat) * 2 powi e1 \<le> of_int m2 * 2 powi e1"
      using powi2_pos [of e1] by (simp add: mult_right_mono)
    then show ?thesis by (simp add: r1 r2 True)
  next
    case False
    with le have "e1 + 1 \<le> e2" by simp
    then have step: "(2::rat) powi (e1 + 1) \<le> 2 powi e2" by (rule powi2_mono)
    have "(of_int m1 :: rat) \<le> 2 ^ 53"
      using b1(2) by (metis of_int_le_iff of_int_numeral of_int_power)
    then have "(of_int m1 :: rat) * 2 powi e1 \<le> 2 ^ 53 * 2 powi e1"
      using powi2_pos [of e1] by (simp add: mult_right_mono)
    also have "\<dots> = 2 ^ 52 * 2 powi (e1 + 1)"
      by (simp add: power_int_add)
    also have "\<dots> \<le> 2 ^ 52 * 2 powi e2"
      using step by simp
    also have "\<dots> \<le> of_int m2 * 2 powi e2"
    proof -
      have "(2::rat) ^ 52 \<le> of_int m2"
        using b2(1) by (metis of_int_le_iff of_int_numeral of_int_power)
      then show ?thesis using powi2_pos [of e2] by (simp add: mult_right_mono)
    qed
    finally show ?thesis by (simp add: r1 r2)
  qed
qed

lemma round_double_minus: "round_double (- q) = - round_double q"
  by (simp add: round_double_def Let_def)

lemma round_double_nonneg: "q \<ge> 0 \<Longrightarrow> round_double q \<ge> 0"
proof (cases "q = 0")
  case True
  then show ?thesis by (simp add: round_double_def)
next
  case False
  assume "q \<ge> 0"
  with False have q: "q > 0" by simp
  have "0 \<le> round_even (q / (2 powi (ilog2 q - 52)))"
    using significand_bounds [OF q] by simp
  then show ?thesis
    using q powi2_pos [of "ilog2 q - 52"] by (simp add: round_double_pos_eq)
qed

lemma round_double_mono:
  assumes "q1 \<le> q2"
  shows "round_double q1 \<le> round_double q2"
proof -
  consider "0 < q1" | "q1 \<le> 0" "0 \<le> q2" | "q2 < 0" by linarith
  then show ?thesis
  proof cases
    case 1
    then show ?thesis using assms by (rule round_double_mono_pos)
  next
    case 2
    have "round_double (- q1) \<ge> 0" using 2(1) by (simp add: round_double_nonneg)
    then have "round_double q1 \<le> 0" by (simp add: round_double_minus)
    also have "0 \<le> round_double q2" using 2(2) by (rule round_double_nonneg)
    finally show ?thesis .
  next
    case 3
    then have "0 < - q2" and "- q2 \<le> - q1" using assms by simp_all
    then have "round_double (- q2) \<le> round_double (- q1)" by (rule round_double_mono_pos)
    then show ?thesis by (simp add: round_double_minus)
  qed
qed

lemma py_int_mono:
  assumes "x \<le> y"
  shows "py_int x \<le> py_int y"
proof -
  consider "0 \<le> x" | "x < 0" "0 \<le> y" | "y < 0" by linarith
  then show ?thesis
  proof cases
    case 1
    then show ?thesis using assms by (simp add: py_int_def floor_mono)
  next
    case 2
    have "\<lceil>x\<rceil> \<le> 0" using 2(1) by (simp add: ceiling_le_iff)
    also have "0 \<le> \<lfloor>y\<rfloor>" using 2(2) by simp
    finally show ?thesis using 2 by (simp add: py_int_def)
  next
    case 3
    then show ?thesis using assms by (simp add: py_int_def ceiling_mono)
  qed
qed

subsection \<open>Evaluating float operations on numerals\<close>

lemma bitlen_numeral_simps:
  "bitlen 1 = 1"
  "bitlen (numeral Num.One) = 1"
  "bitlen (numeral (Num.Bit0 n)) = bitlen (numeral n) + 1"
  "bitlen (numeral (Num.Bit1 n)) = bitlen (numeral n) + 1"
  by (subst compute_bitlen, simp)+

lemma floor_rat_numeral: "\<lfloor>(numeral a / numeral b :: rat)\<rfloor> = numeral a div numeral b"
  by (metis floor_divide_of_int_eq of_int_numeral)

lemma ceiling_rat_numeral:
  "\<lceil>(numeral a / numeral b :: rat)\<rceil> = - (- numeral a div numeral b)"
  using ceiling_divide_eq_div [of "numeral a" "numeral b", where ?'a = rat] by simp

lemmas float_eval = round_double_def ilog2_def round_even_def Let_def
  bitlen_numeral_simps floor_rat_numeral ceiling_rat_numeral

lemma truediv_29_100: "py_truediv 29 100 = Inr (5224175567749775 / 18014398509481984)"
  by (simp add: py_truediv_def float_eval)

lemma float_mul_29: "py_int (py_float_mul (5224175567749775 / 18014398509481984) 100) = 28"
  by (simp add: py_int_def py_float_mul_def float_eval)

lemma overall_percentage_29: "overall_percentage 29 100 = Inr 28"
  by (simp add: overall_percentage_def truediv_29_100 float_mul_29)

lemma overall_percentage_34: "overall_percentage 34 100 = Inr 34"
  by (simp add: overall_percentage_def py_truediv_def py_int_def py_float_mul_def float_eval)

lemma overall_percentage_57: "overall_percentage 57 100 = Inr 56"
  by (simp add: overall_percentage_def py_truediv_def py_int_def py_float_mul_def float_eval)

lemma overall_percentage_58: "overall_percentage 58 100 = Inr 57"
  by (simp add: overall_percentage_def py_truediv_def py_int_def py_float_mul_def float_eval)

lemma overall_percentage_bands:
  "overall_percentage 60 100 = Inr 60 \<and> overall_percentage 80 100 = Inr 80"
  by (simp add: overall_percentage_def py_truediv_def py_int_def py_float_mul_def float_eval)

subsection \<open>The overall percentage\<close>

lemma overall_percentage_mono:
  assumes "t \<le> t'" and "0 < m"
  shows "\<exists>p p'. overall_percentage t m = Inr p \<and> overall_percentage t' m = Inr p' \<and> p \<le> p'"
proof -
  have "(of_int t :: rat) / of_int m \<le> of_int t' / of_int m"
    using assms by (simp add: divide_right_mono)
  then have "round_double (of_int t / of_int m) \<le> round_double (of_int t' / of_int m)"
    by (rule round_double_mono)
  then have "round_double (of_int t / of_int m) * 100 \<le> round_double (of_int t' / of_int m) * 100"
    by simp
  then have "py_int (round_double (round_double (of_int t / of_int m) * 100))
               \<le> py_int (round_double (round_double (of_int t' / of_int m) * 100))"
    by (intro py_int_mono round_double_mono)
  then show ?thesis
    using assms(2) by (simp add: overall_percentage_def py_truediv_def py_float_mul_def)
qed

text \<open>
  C9. With the four maxima of the code (20, 25, 30, 25), raising one sub-score while the
  other three stay the same never lowers the overall percentage: both percentages are
  computed (no error), and the one for the larger sub-score is at least the other. The
  float operations round to nearest, which is monotone, and \<open>int\<close> truncates, which is
  monotone too.
\<close>

theorem overall_pct_monotone:
  fixes f s e c f' s' e' c' :: int
  shows
    "(f \<le> f' \<longrightarrow>
        (\<exists>p p'. overall_percentage (f + s + e + c) (20 + 25 + 30 + 25) = Inr p
           \<and> overall_percentage (f' + s + e + c) (20 + 25 + 30 + 25) = Inr p' \<and> p \<le> p'))
     \<and> (s \<le> s' \<longrightarrow>
        (\<exists>p p'. overall_percentage (f + s + e + c) (20 + 25 + 30 + 25) = Inr p
           \<and> overall_percentage (f + s' + e + c) (20 + 25 + 30 + 25) = Inr p' \<and> p \<le> p'))
     \<and> (e \<le> e' \<longrightarrow>
        (\<exists>p p'. overall_percentage (f + s + e + c) (20 + 25 + 30 + 25) = Inr p
           \<and> overall_percentage (f + s + e' + c) (20 + 25 + 30 + 25) = Inr p' \<and> p \<le> p'))
     \<and> (c \<le> c' \<longrightarrow>
        (\<exists>p p'. overall_percentage (f + s + e + c) (20 + 25 + 30 + 25) = Inr p
           \<and> overall_percentage (f + s + e + c') (20 + 25 + 30 + 25) = Inr p' \<and> p \<le> p'))"
proof (intro conjI impI)
  assume "f \<le> f'"
  then have "f + s + e + c \<le> f' + s + e + c" by simp
  then show "\<exists>p p'. overall_percentage (f + s + e + c) (20 + 25 + 30 + 25) = Inr p
           \<and> overall_percentage (f' + s + e + c) (20 + 25 + 30 + 25) = Inr p' \<and> p \<le> p'"
    by (rule overall_percentage_mono) simp
next
  assume "s \<le> s'"
  then have "f + s + e + c \<le> f + s' + e + c" by simp
  then show "\<exists>p p'. overall_percentage (f + s + e + c) (20 + 25 + 30 + 25) = Inr p
           \<and> overall_percentage (f + s' + e + c) (20 + 25 + 30 + 25) = Inr p' \<and> p \<le> p'"
    by (rule overall_percentage_mono) simp
next
  assume "e \<le> e'"
  then have "f + s + e + c \<le> f + s + e' + c" by simp
  then show "\<exists>p p'. overall_percentage (f + s + e + c) (20 + 25 + 30 + 25) = Inr p
           \<and> overall_percentage (f + s + e' + c) (20 + 25 + 30 + 25) = Inr p' \<and> p \<le> p'"
    by (rule overall_percentage_mono) simp
next
  assume "c \<le> c'"
  then have "f + s + e + c \<le> f + s + e + c'" by simp
  then show "\<exists>p p'. overall_percentage (f + s + e + c) (20 + 25 + 30 + 25) = Inr p
           \<and> overall_percentage (f + s + e + c') (20 + 25 + 30 + 25) = Inr p' \<and> p \<le> p'"
    by (rule overall_percentage_mono) simp
qed

text \<open>
  At the sub-scores (0, 0, 10, 19) and the frontmatter score raised to 5: the
  percentages are 28 and 34.
\<close>

theorem overall_pct_monotone_witness:
  "(0::int) \<le> 5
   \<and> overall_percentage (0 + 0 + 10 + 19) (20 + 25 + 30 + 25) = Inr 28
   \<and> overall_percentage (5 + 0 + 10 + 19) (20 + 25 + 30 + 25) = Inr 34
   \<and> (28::int) \<le> 34"
  using overall_pct_monotone [of 0 5 0 10 19 0 10 19] overall_percentage_29 overall_percentage_34
  by simp

subsection \<open>The report of the 29-point document\<close>

lemma doc29_scores:
  "score_frontmatter (analyzer_of doc29 [])
     = (0, 20, [''Missing 'name' field in frontmatter'',
                ''Missing 'description' field in frontmatter''])"
  "fst (score_structure (analyzer_of doc29 [])) = 0
     \<and> fst (snd (score_structure (analyzer_of doc29 []))) = 25"
  "score_examples (analyzer_of doc29 [])
     = (10, 30, [''Only one code example (consider adding more use cases)''])"
  "score_clarity (analyzer_of doc29 [])
     = (19, 25, [''Found 3 TODO markers (incomplete documentation)''])"
     apply (simp add: score_frontmatter_def analyzer_of_def doc29_def fence_def nl_def
      parse_frontmatter_def frontmatter_block_def)
    apply (simp add: score_structure_def recommended_sections_def py_or_def analyzer_of_def
      doc29_def fence_def nl_def parse_sections_def split: prod.splits)
   apply (simp add: score_examples_def analyzer_of_def doc29_def fence_def nl_def
      count_code_blocks.simps)
  apply (simp add: score_clarity_def analyzer_of_def doc29_def fence_def nl_def count_sub.simps
      lower_def lower_chr_def vague_terms_def str_of_nat.simps digit_chr_def char_of_def bit_0)
  done

text \<open>
  For every analyzer state the report is produced (no ZeroDivisionError): the maxima
  add up to 100, the printed percentage is \<open>overall_percentage\<close> of the two totals,
  and the line under it follows the bands at 80 and 60.
\<close>

lemma print_report_returns:
  "\<exists>r. print_report refs_md a = Inr r \<and> total_max r = 100
     \<and> total_score r = fst (score_frontmatter a) + fst (score_structure a)
                        + fst (score_examples a) + fst (score_clarity a)
     \<and> overall_percentage (total_score r) (total_max r) = Inr (overall_pct r)
     \<and> classification r = classify (overall_pct r)"
  using score_frontmatter_range [of a] score_structure_range [of a]
    score_examples_range [of a] score_clarity_range [of a]
  by (simp add: print_report_def report_of_def analyze_def overall_percentage_def
      py_truediv_def Let_def)

lemma classify_bands:
  "(classify p = Excellent \<longleftrightarrow> 80 \<le> p)
   \<and> (classify p = Good \<longleftrightarrow> 60 \<le> p \<and> p < 80)
   \<and> (classify p = Needs_improvement \<longleftrightarrow> p < 60)"
  by (auto simp: classify_def)

text \<open>
  C1, at the document \<open>doc29\<close>: the sub-scores are 0, 0, 10 and 19, so the totals are
  29 and 100, and \<open>round(100 * 29 / 100)\<close> is 29; the report prints 28. The quotient
  \<open>29 / 100\<close> rounds to a float just below 0.29, its product with 100 rounds to the
  float just below 29, and \<open>int\<close> truncates it.
\<close>

theorem print_report_29_prints_28:
  "new_analyzer (skill_with doc29) = Inr (analyzer_of doc29 [])
   \<and> print_report False (analyzer_of doc29 [])
       = Inr \<lparr>total_score = 29, total_max = 100, overall_pct = 28,
              classification = Needs_improvement\<rparr>
   \<and> round (100 * (29::rat) / 100) = (29::int)"
  by (simp add: new_analyzer_def skill_with_def find_scripts_def print_report_def report_of_def
      analyze_def doc29_scores overall_percentage_29 classify_def)

subsection \<open>Documents without the frontmatter delimiter\<close>

lemma startswith_append: "startswith c (p @ q) \<Longrightarrow> startswith c p"
  by (induction c p rule: startswith.induct) auto

text \<open>
  C3. When the text of SKILL.md does not start with three dashes, the frontmatter parsed
  by the analyzer is the empty mapping, and validation fails with exactly one error,
  the one about the missing frontmatter (whatever the YAML parser and the set orders
  would be).
\<close>

theorem no_delimiter_one_error:
  assumes "skill_md d = Some c" and "\<not> startswith c ''---''"
  shows "parse_frontmatter c = Map.empty
    \<and> validate rt d
        = Inr (False, \<lparr>errors = [''SKILL.md must start with YAML frontmatter (---)''],
                       warnings = []\<rparr>)"
proof -
  have "\<not> startswith c (''---'' @ [nl])"
    using assms(2) startswith_append by blast
  then have "parse_frontmatter c = Map.empty"
    by (simp add: parse_frontmatter_def frontmatter_block_def)
  moreover have "validate rt d
        = Inr (False, \<lparr>errors = [''SKILL.md must start with YAML frontmatter (---)''],
                       warnings = []\<rparr>)"
    using assms
    by (simp add: validate_def run_checks_def check_skill_md_exists_def validate_frontmatter_def)
  ultimately show ?thesis by simp
qed

theorem no_delimiter_one_error_witness:
  "skill_md (skill_with doc_plain) = Some doc_plain \<and> \<not> startswith doc_plain ''---''
   \<and> parse_frontmatter doc_plain = Map.empty
   \<and> validate rt_named (skill_with doc_plain)
       = Inr (False, \<lparr>errors = [''SKILL.md must start with YAML frontmatter (---)''],
                      warnings = []\<rparr>)"
proof -
  have a: "skill_md (skill_with doc_plain) = Some doc_plain"
    by (simp add: skill_with_def)
  have b: "\<not> startswith doc_plain ''---''"
    by (simp add: doc_plain_def)
  from no_delimiter_one_error [OF a b, of rt_named] a b show ?thesis
    by simp
qed

subsection \<open>The content of a section\<close>

lemma split_chr_no_sep: "d \<notin> set l \<Longrightarrow> split_chr d l = [l]"
  by (induction l) auto

lemma split_chr_append: "d \<notin> set l \<Longrightarrow> split_chr d (l @ d # s) = l # split_chr d s"
  by (induction l) auto

lemma split_chr_join:
  "ls \<noteq> [] \<Longrightarrow> \<forall>l\<in>set ls. d \<notin> set l \<Longrightarrow> split_chr d (join [d] ls) = ls"
proof (induction "[d]" ls rule: join.induct)
  case 1
  then show ?case by simp
next
  case (2 x)
  then show ?case by (simp add: split_chr_no_sep)
next
  case (3 x y ys)
  then show ?case by (simp add: split_chr_append)
qed

lemma fold_body:
  "\<forall>l\<in>set body. \<not> startswith l ''## '' \<Longrightarrow> t \<noteq> [] \<Longrightarrow>
     foldl sections_step (secs, Some t, cont) body = (secs, Some t, cont @ body)"
  by (induction body arbitrary: cont) auto

lemma store_other: "cur \<noteq> Some t \<Longrightarrow> store_section secs cur cont t = secs t"
  by (cases cur) auto

lemma fold_keep:
  "finish_sections (secs, cur, cont) t = Some v \<Longrightarrow> cur \<noteq> Some t \<Longrightarrow>
   \<forall>l\<in>set rest. startswith l ''## '' \<longrightarrow> strip (drop 3 l) \<noteq> t \<Longrightarrow>
     finish_sections (foldl sections_step (secs, cur, cont) rest) t = Some v"
proof (induction rest arbitrary: secs cur cont)
  case Nil
  then show ?case by simp
next
  case (Cons l rest)
  show ?case
  proof (cases "startswith l ''## ''")
    case True
    with Cons.prems have ne: "Some (strip (drop 3 l)) \<noteq> Some t" by simp
    have "finish_sections (store_section secs cur cont, Some (strip (drop 3 l)), []) t = Some v"
      using Cons.prems(1) ne by (simp add: store_other)
    from Cons.IH [OF this ne] Cons.prems(3) True show ?thesis by simp
  next
    case False
    have "finish_sections (secs, cur, cont @ [l]) t = Some v"
      using Cons.prems(1,2) by (simp add: store_other)
    from Cons.IH [OF this Cons.prems(2)] Cons.IH [OF Cons.prems(1,2)] Cons.prems(3) False
    show ?thesis by simp
  qed
qed

text \<open>
  C5, as the code has it: the content of a section with a non-empty title runs from its
  heading line (a line that starts with \<open>## \<close>), exclusive, to the next line that
  starts with \<open>## \<close>, exclusive, or to the end of the document; every other line in
  between is part of the content, whatever heading level it has. The title is the
  heading without its marker, stripped; the statement is for a title that no later
  second-level heading repeats (a repeated title overwrites the entry).
\<close>

theorem section_content_to_next_second_level:
  assumes lines: "ls = pre @ [h] @ body @ rest"
    and nonl: "\<forall>l\<in>set ls. nl \<notin> set l"
    and h: "startswith h ''## ''" "strip (drop 3 h) = t" "t \<noteq> []"
    and body: "\<forall>l\<in>set body. \<not> startswith l ''## ''"
    and rest: "rest = [] \<or> startswith (hd rest) ''## ''"
    and later: "\<forall>l\<in>set rest. startswith l ''## '' \<longrightarrow> strip (drop 3 l) \<noteq> t"
  shows "parse_sections (join [nl] ls) t = Some (join [nl] body)"
proof -
  have "ls \<noteq> []" using lines by simp
  then have split: "split_chr nl (join [nl] ls) = ls"
    using nonl by (rule split_chr_join)
  obtain s0 c0 k0 where pre: "foldl sections_step (Map.empty, None, []) pre = (s0, c0, k0)"
    by (cases "foldl sections_step (Map.empty, None, []) pre") auto
  define S where "S = store_section s0 c0 k0"
  have after_body: "foldl sections_step (Map.empty, None, []) (pre @ [h] @ body) = (S, Some t, body)"
    using pre h fold_body [OF body h(3), of S "[]"] by (simp add: S_def)
  have fin: "finish_sections (S, Some t, body) t = Some (join [nl] body)"
    using h(3) by simp
  have "finish_sections (foldl sections_step (S, Some t, body) rest) t = Some (join [nl] body)"
  proof (cases rest)
    case Nil
    then show ?thesis using fin by simp
  next
    case (Cons r rs)
    with rest later have r: "startswith r ''## ''" "strip (drop 3 r) \<noteq> t" by auto
    have step: "sections_step (S, Some t, body) r
                  = (store_section S (Some t) body, Some (strip (drop 3 r)), [])"
      using r by simp
    have "finish_sections (store_section S (Some t) body, Some (strip (drop 3 r)), []) t = Some (join [nl] body)"
      using r(2) h(3) by (simp add: store_other)
    moreover have "Some (strip (drop 3 r)) \<noteq> Some t" using r(2) by simp
    moreover have "\<forall>l\<in>set rs. startswith l ''## '' \<longrightarrow> strip (drop 3 l) \<noteq> t"
      using later Cons by simp
    ultimately have "finish_sections (foldl sections_step
        (store_section S (Some t) body, Some (strip (drop 3 r)), []) rs) t = Some (join [nl] body)"
      by (rule fold_keep)
    then show ?thesis using Cons step by simp
  qed
  then have "finish_sections (foldl sections_step (Map.empty, None, []) ls) t = Some (join [nl] body)"
    using after_body lines by simp
  then show ?thesis
    by (simp add: parse_sections_def split)
qed

theorem section_content_to_next_second_level_witness:
  "lines_nested = [''intro''] @ [''## A''] @ [''x'', ''# B'', ''y''] @ [''## C'', ''z'']
   \<and> startswith ''## A'' ''## '' \<and> strip (drop 3 ''## A'') = ''A''
   \<and> startswith (hd [''## C'', ''z'']) ''## ''
   \<and> parse_sections (join [nl] lines_nested) ''A'' = Some (join [nl] [''x'', ''# B'', ''y''])"
proof -
  have 1: "lines_nested = [''intro''] @ [''## A''] @ [''x'', ''# B'', ''y''] @ [''## C'', ''z'']"
    by (simp add: lines_nested_def)
  have 2: "\<forall>l\<in>set lines_nested. nl \<notin> set l"
    by (simp add: lines_nested_def nl_def)
  have 3: "startswith ''## A'' ''## ''" "strip (drop 3 ''## A'') = ''A''" "''A'' \<noteq> []"
    by (simp_all add: strip_def isspace_def)
  have 4: "\<forall>l\<in>set [''x'', ''# B'', ''y'']. \<not> startswith l ''## ''"
    by simp
  have 5: "[''## C'', ''z''] = [] \<or> startswith (hd [''## C'', ''z'']) ''## ''"
    by simp
  have 6: "\<forall>l\<in>set [''## C'', ''z'']. startswith l ''## '' \<longrightarrow> strip (drop 3 l) \<noteq> ''A''"
    by (simp add: strip_def isspace_def)
  from section_content_to_next_second_level [OF 1 2 3 4 5 6] 1 2 3 4 5 6 show ?thesis
    by simp
qed

text \<open>
  The claim as stated fails: in \<open>doc_nested\<close> the top-level heading line after section
  A does not end the section; it and the line after it are part of the content.
\<close>

theorem top_level_heading_in_section_counterexample:
  "parse_sections doc_nested ''A'' = Some (''x'' @ [nl] @ ''# B'' @ [nl] @ ''y'')
   \<and> parse_sections doc_nested ''A'' \<noteq> Some ''x''"
  by (simp add: parse_sections_def doc_nested_def nl_def strip_def isspace_def)

subsection \<open>Validation: errors and warnings\<close>


lemma yaml_strings_None_iff: "yaml_strings ks = None \<longleftrightarrow> YOther \<in> set ks"
  by (induction ks rule: yaml_strings.induct) (auto split: option.splits)




subsection \<open>The two loops over the file system\<close>







subsection \<open>The frontmatter check\<close>






lemma validate_fields_type_error:
  assumes "strip n \<noteq> []" and "strip desc \<noteq> []"
    and "YOther \<in> set (key_order rt (extra_fields fm))" and "extra_fields fm \<noteq> []"
  shows "\<exists>v'. validate_fields rt fm (YStr n) (YStr desc) v = Inl (Uncaught TypeError, v')"
proof -
  from assms(3) have "yaml_strings (key_order rt (extra_fields fm)) = None"
    by (simp add: yaml_strings_None_iff)
  with assms(1,2,4) show ?thesis
    by (simp add: validate_fields_def Let_def)
qed













lemma rt_named_sel:
  "safe_load rt_named part
     = Yaml_dict [(YStr ''name'', YStr ''demo''), (YStr ''description'', YStr desc100)]"
  "key_order rt_named ks = ks" "path_order rt_named ps = ps"
  by (simp_all add: rt_named_def)









lemma desc100_strip:
  "strip desc100 \<noteq> [] \<and> \<not> contains desc100 ''TODO:'' \<and> strip ''demo'' \<noteq> []"
  by (simp add: desc100_def strip_def isspace_def)






lemma validate_fields_named:
  "validate_fields rt_named [(YStr ''name'', YStr ''demo''), (YStr ''description'', YStr desc100)]
     (YStr ''demo'') (YStr desc100) v = Inr v"
  using desc100_facts desc100_strip
  by (simp add: validate_fields_def extra_fields_def yaml_keys_def rt_named_sel)






lemma backtick_reference_is_extension: "referenced_files doc_backtick = [''py'']"
  by (simp add: referenced_files_def doc_backtick_def findall_links.simps
      findall_code_refs.simps match_link_def match_code_ref_def backtick_def code_ref_ext_def
      endswith_def is_url_or_anchor_def)

lemma lists_the_set_id: "lists_the_set (\<lambda>xs. xs)"
  by (simp add: lists_the_set_def)



subsection \<open>The placeholder assets directory\<close>
















text \<open>
  A path under assets reaches validation only as a referenced path: with a link to a
  missing file there, the result has the warning of the missing reference.
\<close>

lemma doc_asset_link_frontmatter_part:
  "startswith doc_asset_link ''---'' \<and> frontmatter_part doc_asset_link \<noteq> None"
  by (simp add: frontmatter_part_def doc_asset_link_def doc_named_def desc100_def nl_def)

lemma doc_asset_link_references: "referenced_files doc_asset_link = [''assets/logo.png'']"
  by (simp add: referenced_files_def doc_asset_link_def doc_named_def desc100_def nl_def
      findall_links.simps findall_code_refs.simps match_link_def match_code_ref_def backtick_def
      is_url_or_anchor_def)

lemma doc_asset_link_size: "count_lines doc_asset_link = 6 \<and> length doc_asset_link = 169"
  by (simp add: doc_asset_link_def doc_named_def desc100_def nl_def is_linebreak_def)

lemma validate_frontmatter_asset_link: "validate_frontmatter rt_named doc_asset_link v = Inr v"
  using doc_asset_link_frontmatter_part
  by (auto simp add: validate_frontmatter_def rt_named_sel validate_fields_named)

lemma validate_asks_for_referenced_assets:
  "assets_entries dir_asset_link = Some [''README.md'']
   \<and> validate rt_named dir_asset_link
       = Inr (True, \<lparr>errors = [], warnings = [reference_warning ''assets/logo.png'']\<rparr>)"
  by (simp add: validate_def run_checks_def check_skill_md_exists_def
      validate_frontmatter_asset_link dir_asset_link_def validate_structure_def
      extraneous_files_def check_file_references_def doc_asset_link_references
      check_token_budget_def doc_asset_link_size rt_named_sel)

end
